theory Spec2Isabelle
  imports Complex_Main
begin

text \<open>
  A shallow embedding of the code cells of the notebook
  \<^verbatim>\<open>(Exercises) Introduction_TimeSeries_Anomaly_Detection.ipynb\<close>: the resampling cell,
  \<open>split_data\<close>, the model set-up of \<open>_sarima\<close> and \<open>evaluation\<close>. Timestamps (\<open>ds\<close>) are
  integers, seconds since the epoch; metric values are reals. Plotting and printing are
  left out. Fitting and forecasting are done by the library class \<open>SARIMAX\<close>, of which the
  notebook holds only the call; the model has the constructor's check of the seasonal
  order, which decides whether that call returns a model or raises.
\<close>

section \<open>Values of numpy and pandas cells\<close>

text \<open>
  A cell of a numpy array or of a pandas column holds a float that may be NaN. The
  model writes such a cell as \<open>real option\<close>, \<open>None\<close> standing for NaN; finite values
  are exact reals (rounding and overflow of IEEE doubles are not modelled). Arithmetic
  with NaN gives NaN, and every ordering comparison with NaN is false, as in Python.
\<close>

type_synonym npfloat = "real option"

definition fadd :: "npfloat \<Rightarrow> npfloat \<Rightarrow> npfloat" where
  "fadd a b = (case a of None \<Rightarrow> None | Some x \<Rightarrow> (case b of None \<Rightarrow> None | Some y \<Rightarrow> Some (x + y)))"

definition fsub :: "npfloat \<Rightarrow> npfloat \<Rightarrow> npfloat" where
  "fsub a b = (case a of None \<Rightarrow> None | Some x \<Rightarrow> (case b of None \<Rightarrow> None | Some y \<Rightarrow> Some (x - y)))"

definition fmul :: "npfloat \<Rightarrow> npfloat \<Rightarrow> npfloat" where
  "fmul a b = (case a of None \<Rightarrow> None | Some x \<Rightarrow> (case b of None \<Rightarrow> None | Some y \<Rightarrow> Some (x * y)))"

definition flt :: "npfloat \<Rightarrow> npfloat \<Rightarrow> bool" where
  "flt a b = (case a of None \<Rightarrow> False | Some x \<Rightarrow> (case b of None \<Rightarrow> False | Some y \<Rightarrow> x < y))"

definition fgt :: "npfloat \<Rightarrow> npfloat \<Rightarrow> bool" where
  "fgt a b = (case a of None \<Rightarrow> False | Some x \<Rightarrow> (case b of None \<Rightarrow> False | Some y \<Rightarrow> x > y))"

definition fge :: "npfloat \<Rightarrow> npfloat \<Rightarrow> bool" where
  "fge a b = (case a of None \<Rightarrow> False | Some x \<Rightarrow> (case b of None \<Rightarrow> False | Some y \<Rightarrow> x \<ge> y))"

text \<open>
  \<open>np.std(forecast[:i])\<close>: numpy hands the call to the frame's own \<open>std\<close> with
  \<open>ddof = 0\<close>, the population standard deviation (the divisor is the number of
  points). Over an empty slice the result is NaN; over one point it is 0.
\<close>

definition np_mean :: "real list \<Rightarrow> real" where
  "np_mean xs = sum_list xs / real (length xs)"

definition np_std :: "real list \<Rightarrow> npfloat" where
  "np_std xs =
     (if xs = [] then None
      else Some (sqrt (sum_list (map (\<lambda>x. (x - np_mean xs)\<^sup>2) xs) / real (length xs))))"

section \<open>The resampling cell\<close>

text \<open>
  \<^verbatim>\<open>m_values = m_values.set_index('ds'); m_values = m_values.resample(freq).mean();
  m_values = m_values.dropna()\<close>

  The three calls are pandas library calls; their meaning is written out here for a tick
  frequency of \<open>w\<close> seconds. \<open>resample\<close> cuts the time axis into the bins
  \<open>[edge, edge + w)\<close>, closed on the left and labelled by their left edge. The first
  edge is the last point of the form \<open>origin + m * w\<close> that is not after the first
  timestamp, \<open>origin\<close> being midnight of the first timestamp's day; the last bin is the one
  that holds the last timestamp. \<open>mean\<close> gives every bin the mean of its values, NaN for
  a bin without rows, and \<open>dropna\<close> removes the NaN rows.
\<close>

type_synonym series = "(int \<times> real) list"

definition start_day :: "int \<Rightarrow> int" where
  "start_day t = (t div 86400) * 86400"

definition first_edge :: "int \<Rightarrow> int \<Rightarrow> int" where
  "first_edge w t = start_day t + ((t - start_day t) div w) * w"

definition bin_edges :: "int \<Rightarrow> int list \<Rightarrow> int list" where
  "bin_edges w index =
     (let first = first_edge w (Min (set index));
          n = (Max (set index) - first) div w
      in map (\<lambda>k. first + int k * w) [0..<nat n + 1])"

definition bin_values :: "int \<Rightarrow> series \<Rightarrow> int \<Rightarrow> real list" where
  "bin_values w rows edge = map snd (filter (\<lambda>r. edge \<le> fst r \<and> fst r < edge + w) rows)"

definition mean :: "real list \<Rightarrow> npfloat" where
  "mean ys = (if ys = [] then None else Some (sum_list ys / real (length ys)))"

definition resample_mean :: "int \<Rightarrow> series \<Rightarrow> (int \<times> npfloat) list" where
  "resample_mean w rows =
     (if rows = [] then []
      else map (\<lambda>edge. (edge, mean (bin_values w rows edge))) (bin_edges w (map fst rows)))"

fun dropna :: "(int \<times> npfloat) list \<Rightarrow> series" where
  "dropna [] = []"
| "dropna ((t, None) # rows) = dropna rows"
| "dropna ((t, Some y) # rows) = (t, y) # dropna rows"

definition resample_cell :: "int \<Rightarrow> series \<Rightarrow> series" where
  "resample_cell w m_values = dropna (resample_mean w m_values)"

section \<open>The splitting cell\<close>

text \<open>
  \<^verbatim>\<open>def split_data(dataframe)\<close>: the frame is sorted by \<open>ds\<close> and cut at
  \<open>int(len(dataframe) * (1 - float(ratio)))\<close>, with \<open>ratio = 0.2\<close> a local constant.
  The product is taken in exact arithmetic (the double product \<open>n * 0.8\<close> has the same
  integer part for every length a frame can have); \<open>int\<close> truncates a non-negative
  value, which is its floor. \<open>sort_values\<close> is modelled by a stable sort on the key \<open>ds\<close>;
  the timestamps of a resampled frame are pairwise different, so no ties arise.
\<close>

definition split_data :: "series \<Rightarrow> series \<times> series" where
  "split_data dataframe =
     (let dataframe = sort_key fst dataframe;
          ratio = (0.2 :: real);
          size = nat \<lfloor>real (length dataframe) * (1 - ratio)\<rfloor>
      in (take size dataframe, drop size dataframe))"

section \<open>The model set-up of \<open>_sarima\<close>\<close>

text \<open>
  \<open>sfrequency\<close> is the value of the local variable of that name after the chain of
  \<open>if\<close>/\<open>elif\<close> on \<open>freq\<close>; it starts at 0 and no branch raises.

  \<open>SARIMAX\<close> is the constructor of the statsmodels class, a library call, as far as the
  arguments of the notebook's call decide its outcome: it raises \<open>ValueError\<close> for a
  seasonal period of 1 (\<open>Seasonal periodicity must be greater than 1\<close>) and for a
  seasonal period of 0 together with a seasonal order that is not all zero
  (\<open>Must include nonzero seasonal periodicity if including seasonal AR, MA, or
  differencing\<close>); otherwise it returns the model, here the record of its arguments.

  \<open>sarima_model\<close> is the statement \<open>model = SARIMAX(train, order=(1, 2, 2),
  seasonal_order=(2,2,2,sfrequency), enforce_stationarity = True,
  enforce_invertibility = False)\<close> of \<open>_sarima\<close>; when the constructor raises, \<open>_sarima\<close>
  ends there with that exception.
\<close>

datatype error = ValueError

definition sfrequency :: "string \<Rightarrow> nat" where
  "sfrequency freq =
     (if freq = ''1h'' then 24
      else if freq = ''30Min'' then 48
      else if freq = ''15Min'' then 96
      else if freq = ''1d'' then 1
      else 0)"

record sarimax =
  endog :: series
  order :: "nat \<times> nat \<times> nat"
  seasonal_order :: "nat \<times> nat \<times> nat \<times> nat"
  enforce_stationarity :: bool
  enforce_invertibility :: bool

definition SARIMAX ::
  "series \<Rightarrow> nat \<times> nat \<times> nat \<Rightarrow> nat \<times> nat \<times> nat \<times> nat \<Rightarrow> bool \<Rightarrow> bool \<Rightarrow> error + sarimax" where
  "SARIMAX train ord sord stationarity invertibility =
     (case sord of (P, D, Q, s) \<Rightarrow>
        if s = 1 then Inl ValueError
        else if \<not> (P = 0 \<and> D = 0 \<and> Q = 0) \<and> s = 0 then Inl ValueError
        else Inr \<lparr> endog = train, order = ord, seasonal_order = sord,
                   enforce_stationarity = stationarity,
                   enforce_invertibility = invertibility \<rparr>)"

definition sarima_model :: "series \<Rightarrow> string \<Rightarrow> error + sarimax" where
  "sarima_model train freq = SARIMAX train (1, 2, 2) (2, 2, 2, sfrequency freq) True False"

section \<open>The evaluation cell: bounds and anomaly flags\<close>

text \<open>
  \<open>forecast\<close> is the column \<open>predict\<close> of the forecast frame, which \<open>_sarima\<close> builds on
  the index of \<open>test\<close>; \<open>test\<close> is the list of rows \<open>(ds, y)\<close> of the held-out frame,
  in index order. Both hold finite values (the resampling cell has dropped every NaN
  row), so \<open>compare.dropna()\<close> keeps every row of the join.
\<close>

record compare_row =
  row_ds :: int
  row_y :: real
  row_predict :: real
  LowerBound :: npfloat
  UpperBound :: npfloat
  WithinUpperBounds :: bool
  WithinLowerBounds :: bool
  Anomaly :: nat

definition upper_bound :: "real list \<Rightarrow> npfloat list" where
  "upper_bound forecast =
     map (\<lambda>i. fadd (Some (forecast ! i)) (fmul (np_std (take i forecast)) (Some 2)))
       [0..<length forecast]"

definition lower_bound :: "real list \<Rightarrow> npfloat list" where
  "lower_bound forecast =
     map (\<lambda>i. fsub (Some (forecast ! i)) (fmul (np_std (take i forecast)) (Some 2)))
       [0..<length forecast]"

text \<open>The loop \<open>for i in range(len(compare))\<close> that fills the list \<open>anomaly\<close>.\<close>

fun detect :: "(real \<times> npfloat \<times> npfloat) list \<Rightarrow> nat list" where
  "detect [] = []"
| "detect ((y, lower, upper) # rest) =
     (if flt (Some y) upper \<and> fgt (Some y) lower then 0 else 1) # detect rest"

text \<open>
  The frames \<open>lower\<close> and \<open>upper\<close> are built from \<open>len(forecast)\<close> values on the index of
  \<open>test\<close>; pandas raises \<open>ValueError\<close> when the two lengths differ. The result is the
  frame \<open>compare\<close> that the cell prints.
\<close>

definition evaluation :: "real list \<Rightarrow> series \<Rightarrow> error + compare_row list" where
  "evaluation forecast test =
     (if length forecast \<noteq> length test then Inl ValueError
      else
        let lower = lower_bound forecast;
            upper = upper_bound forecast;
            anomaly = detect (zip (map snd test) (zip lower upper))
        in Inr (map (\<lambda>i.
             \<lparr> row_ds = fst (test ! i),
               row_y = snd (test ! i),
               row_predict = forecast ! i,
               LowerBound = lower ! i,
               UpperBound = upper ! i,
               WithinUpperBounds = flt (Some (forecast ! i)) (upper ! i),
               WithinLowerBounds = fgt (Some (forecast ! i)) (lower ! i),
               Anomaly = anomaly ! i \<rparr>) [0..<length test]))"

section \<open>The formulas of the specification\<close>

text \<open>
  These definitions follow the words of the specification, not the code; the bounds
  and the split point of the code are compared with them. \<open>spec_stddev\<close> is the sample
  standard deviation (divisor \<open>n - 1\<close>), defined as 0 for a single point;
  \<open>spec_upper_bound\<close> and \<open>spec_lower_bound\<close> take it over \<open>predict[0..i]\<close>, index \<open>i\<close>
  included; \<open>spec_split_point\<close> is \<open>floor(n * (1 - r))\<close>.
\<close>

definition spec_stddev :: "real list \<Rightarrow> real" where
  "spec_stddev xs =
     (if length xs \<le> 1 then 0
      else sqrt (sum_list (map (\<lambda>x. (x - np_mean xs)\<^sup>2) xs) / real (length xs - 1)))"

definition spec_upper_bound :: "real \<Rightarrow> real list \<Rightarrow> nat \<Rightarrow> real" where
  "spec_upper_bound k predict i = predict ! i + k * spec_stddev (take (Suc i) predict)"

definition spec_lower_bound :: "real \<Rightarrow> real list \<Rightarrow> nat \<Rightarrow> real" where
  "spec_lower_bound k predict i = predict ! i - k * spec_stddev (take (Suc i) predict)"

definition spec_split_point :: "nat \<Rightarrow> real \<Rightarrow> nat" where
  "spec_split_point n r = nat \<lfloor>real n * (1 - r)\<rfloor>"

section \<open>Properties of the resampling cell\<close>

lemma first_edge_aligned:
  assumes "0 < w" and "w dvd 86400"
  shows "first_edge w t = (t div w) * w"
proof -
  obtain c where c: "86400 = w * c" using assms(2) by (auto simp: dvd_def)
  define k where "k = c * (t div 86400)"
  have sd: "start_day t = k * w"
    by (simp add: start_day_def c k_def)
  have e: "(t - k * w) div w = t div w - k"
  proof -
    have "(t + (- k) * w) div w = - k + t div w"
      using assms(1) by (subst div_mult_self1) simp_all
    then show ?thesis by simp
  qed
  show ?thesis
    unfolding first_edge_def sd e by (simp add: algebra_simps)
qed

lemma in_bin_iff:
  fixes w t j :: int
  assumes "0 < w"
  shows "(j * w \<le> t \<and> t < j * w + w) \<longleftrightarrow> t div w = j"
proof
  assume h: "j * w \<le> t \<and> t < j * w + w"
  show "t div w = j"
  proof (rule int_div_pos_eq [of t w j "t - j * w"])
    show "t = w * j + (t - j * w)" by (simp add: algebra_simps)
    show "0 \<le> t - j * w" using h by simp
    show "t - j * w < w" using h by simp
  qed
next
  assume "t div w = j"
  then have "j * w = t - t mod w"
    using div_mult_mod_eq [of t w] by simp
  moreover have "0 \<le> t mod w" "t mod w < w" using assms by simp_all
  ultimately show "j * w \<le> t \<and> t < j * w + w" by linarith
qed

lemma bin_edges_sorted:
  assumes "0 < w"
  shows "sorted_wrt (<) (bin_edges w index)"
proof -
  have "sorted_wrt (\<lambda>a b. f + int a * w < f + int b * w) [0..<n]" for f n
  proof (rule sorted_wrt_mono_rel [of _ "(<)"])
    show "sorted_wrt (<) [0..<n]" by simp
    show "f + int a * w < f + int b * w" if "a < b" for a b
      using that assms by simp
  qed
  then show ?thesis
    unfolding bin_edges_def Let_def sorted_wrt_map by blast
qed

lemma bin_edges_member:
  assumes "0 < w" and "w dvd 86400" and "index \<noteq> []"
  shows "e \<in> set (bin_edges w index)
     \<longleftrightarrow> (\<exists>j. e = j * w \<and> Min (set index) div w \<le> j \<and> j \<le> Max (set index) div w)"
proof -
  define lo where "lo = Min (set index) div w"
  define hi where "hi = Max (set index) div w"
  have first: "first_edge w (Min (set index)) = lo * w"
    by (simp add: first_edge_aligned [OF assms(1,2)] lo_def)
  have n: "(Max (set index) - lo * w) div w = hi - lo"
  proof -
    have "(Max (set index) + (- lo) * w) div w = - lo + Max (set index) div w"
      using assms(1) by (subst div_mult_self1) simp_all
    then show ?thesis by (simp add: hi_def)
  qed
  have "Min (set index) \<le> Max (set index)"
    using assms(3) by simp
  then have lohi: "lo \<le> hi"
    unfolding lo_def hi_def using assms(1) by (simp add: zdiv_mono1)
  have edges: "bin_edges w index = map (\<lambda>k. lo * w + int k * w) [0..<nat (hi - lo) + 1]"
    unfolding bin_edges_def Let_def first n ..
  show ?thesis
    unfolding edges lo_def [symmetric] hi_def [symmetric]
  proof
    assume "e \<in> set (map (\<lambda>k. lo * w + int k * w) [0..<nat (hi - lo) + 1])"
    then have "e \<in> (\<lambda>k. lo * w + int k * w) ` {0..<nat (hi - lo) + 1}"
      by (simp only: set_map set_upt)
    then obtain k where "k \<in> {0..<nat (hi - lo) + 1}" and e: "e = lo * w + int k * w"
      by (rule imageE)
    then have k: "k < nat (hi - lo) + 1" by simp
    have "e = (lo + int k) * w" by (simp add: e algebra_simps)
    moreover have "lo \<le> lo + int k" "lo + int k \<le> hi" using k lohi by simp_all
    ultimately show "\<exists>j. e = j * w \<and> lo \<le> j \<and> j \<le> hi" by blast
  next
    assume "\<exists>j. e = j * w \<and> lo \<le> j \<and> j \<le> hi"
    then obtain j where j: "e = j * w" "lo \<le> j" "j \<le> hi" by blast
    have "nat (j - lo) < nat (hi - lo) + 1" using j by simp
    moreover have "e = lo * w + int (nat (j - lo)) * w" using j by (simp add: algebra_simps)
    ultimately have "e \<in> (\<lambda>k. lo * w + int k * w) ` {0..<nat (hi - lo) + 1}"
      by (intro image_eqI [of _ _ "nat (j - lo)"]) simp_all
    then show "e \<in> set (map (\<lambda>k. lo * w + int k * w) [0..<nat (hi - lo) + 1])"
      by (simp only: set_map set_upt)
  qed
qed

lemma map_fst_dropna:
  "map fst (dropna (map (\<lambda>e. (e, f e)) es)) = filter (\<lambda>e. f e \<noteq> None) es"
proof (induction es)
  case Nil
  then show ?case by simp
next
  case (Cons e es)
  then show ?case by (cases "f e") simp_all
qed

lemma dropna_member: "(t, y) \<in> set (dropna rows) \<longleftrightarrow> (t, Some y) \<in> set rows"
  by (induction rows rule: dropna.induct) auto

lemma mean_None: "mean ys = None \<longleftrightarrow> ys = []"
  by (simp add: mean_def)

lemma resample_cell_labels:
  "map fst (resample_cell w rows) =
     (if rows = [] then []
      else filter (\<lambda>e. bin_values w rows e \<noteq> []) (bin_edges w (map fst rows)))"
  by (simp add: resample_cell_def resample_mean_def map_fst_dropna mean_None)

lemma resample_cell_member:
  "(b, v) \<in> set (resample_cell w rows) \<longleftrightarrow>
     rows \<noteq> [] \<and> b \<in> set (bin_edges w (map fst rows)) \<and> mean (bin_values w rows b) = Some v"
  by (auto simp: resample_cell_def resample_mean_def dropna_member)

lemma bin_values_nonempty:
  "bin_values w rows e \<noteq> [] \<longleftrightarrow> (\<exists>r \<in> set rows. e \<le> fst r \<and> fst r < e + w)"
  by (auto simp: bin_values_def filter_empty_conv)

text \<open>
  Claim C7. For a bucket width \<open>w\<close> that divides the day (15 minutes, 30 minutes, 1 hour
  and 1 day all do), the resampled frame is in strictly increasing order of time, so it
  has one row per label; its labels are exactly the calendar-aligned starts
  \<open>(t div w) * w\<close> of the buckets that hold a raw sample, so an empty bucket has no row;
  and the value of a row labelled \<open>b\<close> is the arithmetic mean of the raw values with
  \<open>b \<le> t < b + w\<close>.
\<close>

theorem resample_bucket_means:
  assumes "0 < w" and "w dvd 86400"
  shows "sorted_wrt (<) (map fst (resample_cell w rows))
       \<and> set (map fst (resample_cell w rows)) = (\<lambda>r. (fst r div w) * w) ` set rows
       \<and> (\<forall>(b, v) \<in> set (resample_cell w rows).
            b mod w = 0
          \<and> filter (\<lambda>r. b \<le> fst r \<and> fst r < b + w) rows \<noteq> []
          \<and> v = sum_list (map snd (filter (\<lambda>r. b \<le> fst r \<and> fst r < b + w) rows))
                 / real (length (filter (\<lambda>r. b \<le> fst r \<and> fst r < b + w) rows)))"
proof (intro conjI)
  show "sorted_wrt (<) (map fst (resample_cell w rows))"
    unfolding resample_cell_labels
    using bin_edges_sorted [OF assms(1)] by (simp add: sorted_wrt_filter)
next
  show "set (map fst (resample_cell w rows)) = (\<lambda>r. (fst r div w) * w) ` set rows"
  proof (cases "rows = []")
    case True
    then show ?thesis by (simp add: resample_cell_labels)
  next
    case False
    then have ne: "map fst rows \<noteq> []" by simp
    note mem = bin_edges_member [OF assms ne]
    show ?thesis
    proof (intro set_eqI iffI)
      fix e assume "e \<in> set (map fst (resample_cell w rows))"
      then have e: "e \<in> set (bin_edges w (map fst rows))" and "bin_values w rows e \<noteq> []"
        using False by (simp_all add: resample_cell_labels)
      then obtain r where r: "r \<in> set rows" "e \<le> fst r" "fst r < e + w"
        by (auto simp: bin_values_nonempty)
      obtain j where j: "e = j * w" using e mem by blast
      have "fst r div w = j"
        using r j in_bin_iff [OF assms(1), of j "fst r"] by simp
      then show "e \<in> (\<lambda>r. (fst r div w) * w) ` set rows"
        using r(1) j by blast
    next
      fix e assume "e \<in> (\<lambda>r. (fst r div w) * w) ` set rows"
      then obtain r where r: "r \<in> set rows" and e: "e = (fst r div w) * w" by blast
      have "fst r \<in> set (map fst rows)" using r by simp
      then have "Min (set (map fst rows)) \<le> fst r" "fst r \<le> Max (set (map fst rows))"
        by (simp_all del: set_map)
      then have "Min (set (map fst rows)) div w \<le> fst r div w"
          "fst r div w \<le> Max (set (map fst rows)) div w"
        using assms(1) by (simp_all add: zdiv_mono1)
      then have edge: "e \<in> set (bin_edges w (map fst rows))"
        using mem e by blast
      have "e \<le> fst r \<and> fst r < e + w"
        using in_bin_iff [OF assms(1), of "fst r div w" "fst r"] e by simp
      then have "bin_values w rows e \<noteq> []"
        using r by (auto simp: bin_values_nonempty)
      then show "e \<in> set (map fst (resample_cell w rows))"
        using False edge by (simp add: resample_cell_labels)
    qed
  qed
next
  show "\<forall>(b, v) \<in> set (resample_cell w rows).
            b mod w = 0
          \<and> filter (\<lambda>r. b \<le> fst r \<and> fst r < b + w) rows \<noteq> []
          \<and> v = sum_list (map snd (filter (\<lambda>r. b \<le> fst r \<and> fst r < b + w) rows))
                 / real (length (filter (\<lambda>r. b \<le> fst r \<and> fst r < b + w) rows))"
  proof (clarify, intro conjI)
    fix b v assume "(b, v) \<in> set (resample_cell w rows)"
    then have ne: "rows \<noteq> []" and edge: "b \<in> set (bin_edges w (map fst rows))"
      and mean: "mean (bin_values w rows b) = Some v"
      by (simp_all add: resample_cell_member)
    from ne have "map fst rows \<noteq> []" by simp
    from bin_edges_member [OF assms this] edge obtain j where "b = j * w" by blast
    then show "b mod w = 0" by simp
    from mean show "filter (\<lambda>r. b \<le> fst r \<and> fst r < b + w) rows \<noteq> []"
      by (auto simp: mean_def bin_values_def split: if_splits)
    from mean show "v = sum_list (map snd (filter (\<lambda>r. b \<le> fst r \<and> fst r < b + w) rows))
                 / real (length (filter (\<lambda>r. b \<le> fst r \<and> fst r < b + w) rows))"
      by (auto simp: mean_def bin_values_def split: if_splits)
  qed
qed

text \<open>
  Claim C7 at five samples and hourly buckets: the buckets of hours 2 and 3 are empty
  and have no row, the labels are the hour starts of the samples, and the row of hour 4
  holds the mean 9 of the values 7 and 11.
\<close>

theorem resample_bucket_means_witness:
  "(0::int) < 3600 \<and> (3600::int) dvd 86400
   \<and> resample_cell 3600 [(10, 1), (20, 3), (3700, 5), (14405, 7), (14406, 11)]
       = [(0, 2), (3600, 5), (14400, 9)]
   \<and> sorted_wrt (<) (map fst (resample_cell 3600 [(10, 1), (20, 3), (3700, 5), (14405, 7), (14406, 11)]))
   \<and> set (map fst (resample_cell 3600 [(10, 1), (20, 3), (3700, 5), (14405, 7), (14406, 11)]))
       = (\<lambda>r. (fst r div 3600) * 3600) ` set [(10, 1 :: real), (20, 3), (3700, 5), (14405, 7), (14406, 11)]
   \<and> (9 :: real) =
       sum_list (map snd (filter (\<lambda>r. 14400 \<le> fst r \<and> fst r < 14400 + 3600)
         [(10 :: int, 1 :: real), (20, 3), (3700, 5), (14405, 7), (14406, 11)]))
       / real (length (filter (\<lambda>r. 14400 \<le> fst r \<and> fst r < 14400 + 3600)
         [(10 :: int, 1 :: real), (20, 3), (3700, 5), (14405, 7), (14406, 11)]))"
proof -
  have h1: "(0::int) < 3600" by simp
  have h2: "(3600::int) dvd 86400" by simp
  note inst = resample_bucket_means [OF h1 h2, of "[(10, 1), (20, 3), (3700, 5), (14405, 7), (14406, 11)]"]
  have v: "resample_cell 3600 [(10, 1), (20, 3), (3700, 5), (14405, 7), (14406, 11)]
       = [(0, 2), (3600, 5), (14400, 9)]"
    by (simp add: resample_cell_def resample_mean_def bin_edges_def bin_values_def mean_def
        first_edge_def start_day_def upt_conv_Cons del: upt_Suc)
  have m: "(14400, 9) \<in> set (resample_cell 3600 [(10, 1), (20, 3), (3700, 5), (14405, 7), (14406, 11)])"
    unfolding v by simp
  have ord: "sorted_wrt (<) (map fst (resample_cell 3600 [(10, 1), (20, 3), (3700, 5), (14405, 7), (14406, 11)]))"
    using inst by blast
  have labels: "set (map fst (resample_cell 3600 [(10, 1), (20, 3), (3700, 5), (14405, 7), (14406, 11)]))
         = (\<lambda>r. (fst r div 3600) * 3600) ` set [(10, 1 :: real), (20, 3), (3700, 5), (14405, 7), (14406, 11)]"
    using inst by blast
  note ball = inst [THEN conjunct2, THEN conjunct2]
  from bspec [OF ball m]
  have nine: "(9 :: real) =
       sum_list (map snd (filter (\<lambda>r. 14400 \<le> fst r \<and> fst r < 14400 + 3600)
         [(10 :: int, 1 :: real), (20, 3), (3700, 5), (14405, 7), (14406, 11)]))
       / real (length (filter (\<lambda>r. 14400 \<le> fst r \<and> fst r < 14400 + 3600)
         [(10 :: int, 1 :: real), (20, 3), (3700, 5), (14405, 7), (14406, 11)]))"
    by (simp only: case_prod_conv)
  show ?thesis
    using h1 h2 v ord labels nine by (intro conjI)
qed

section \<open>Properties of the splitting cell\<close>

lemma split_size: "nat \<lfloor>real n * (1 - 0.2)\<rfloor> = 4 * n div 5"
proof -
  have "real n * (1 - 0.2) = of_int (4 * int n) / of_int 5" by simp
  then have "\<lfloor>real n * (1 - 0.2)\<rfloor> = (4 * int n) div 5"
    by (simp only: floor_divide_of_int_eq)
  then show ?thesis by (simp add: nat_div_distrib nat_mult_distrib)
qed

lemma split_data_eq:
  "split_data series =
     (take (4 * length series div 5) (sort_key fst series),
      drop (4 * length series div 5) (sort_key fst series))"
  using split_size [of "length series"] by (simp add: split_data_def Let_def)

lemma sort_key_strict:
  assumes "distinct (map fst series)"
  shows "sorted_wrt (\<lambda>a b. fst a < fst b) (sort_key fst series)"
proof -
  have "sorted (map fst (sort_key fst series))" by (rule sorted_sort_key)
  moreover have "distinct (map fst (sort_key fst series))"
    using assms by (simp add: distinct_map)
  ultimately have "sorted_wrt (<) (map fst (sort_key fst series))"
    by (simp add: strict_sorted_iff)
  then show ?thesis by (simp add: sorted_wrt_map)
qed

text \<open>
  Claim C4, as the code has it. The holdout ratio is not a parameter: it is the constant
  0.2. For every series with pairwise different timestamps, \<open>train\<close> is the prefix of
  length \<open>floor(n * (1 - 0.2))\<close> of the series sorted by \<open>ds\<close> and \<open>test\<close> is the rest, the
  two lengths add up to \<open>n\<close>, and every timestamp of \<open>train\<close> is before every timestamp
  of \<open>test\<close>.
\<close>

theorem split_data_partition:
  assumes "distinct (map fst series)"
  shows "fst (split_data series) = take (nat \<lfloor>real (length series) * (1 - 0.2)\<rfloor>) (sort_key fst series)
       \<and> snd (split_data series) = drop (nat \<lfloor>real (length series) * (1 - 0.2)\<rfloor>) (sort_key fst series)
       \<and> length (fst (split_data series)) = nat \<lfloor>real (length series) * (1 - 0.2)\<rfloor>
       \<and> length (fst (split_data series)) + length (snd (split_data series)) = length series
       \<and> (\<forall>a \<in> set (fst (split_data series)). \<forall>b \<in> set (snd (split_data series)). fst a < fst b)"
proof -
  define k where "k = 4 * length series div 5"
  have k: "nat \<lfloor>real (length series) * (1 - 0.2)\<rfloor> = k"
    unfolding k_def by (rule split_size)
  have le: "k \<le> length series" by (simp add: k_def)
  have sd: "split_data series = (take k (sort_key fst series), drop k (sort_key fst series))"
    unfolding k_def by (rule split_data_eq)
  have "sorted_wrt (\<lambda>a b. fst a < fst b) (take k (sort_key fst series) @ drop k (sort_key fst series))"
    using sort_key_strict [OF assms] by simp
  then have ord: "\<forall>a \<in> set (take k (sort_key fst series)). \<forall>b \<in> set (drop k (sort_key fst series)). fst a < fst b"
    unfolding sorted_wrt_append by blast
  show ?thesis
    unfolding k sd using le ord by simp
qed

text \<open>
  Claim C4 at five rows given out of order: four go to \<open>train\<close>, the latest to \<open>test\<close>,
  and the last timestamp of \<open>train\<close> is before the first of \<open>test\<close>.
\<close>

theorem split_data_partition_witness:
  "distinct (map fst [(7200 :: int, 5 :: real), (0, 1), (3600, 2), (14400, 4), (10800, 3)])
   \<and> split_data [(7200, 5), (0, 1), (3600, 2), (14400, 4), (10800, 3)]
       = ([(0, 1), (3600, 2), (7200, 5), (10800, 3)], [(14400, 4)])
   \<and> length (fst (split_data [(7200, 5), (0, 1), (3600, 2), (14400, 4), (10800, 3)])) = 4
   \<and> fst (last (fst (split_data [(7200, 5), (0, 1), (3600, 2), (14400, 4), (10800, 3)])))
       < fst (hd (snd (split_data [(7200, 5), (0, 1), (3600, 2), (14400, 4), (10800, 3)])))"
proof -
  have d: "distinct (map fst [(7200 :: int, 5 :: real), (0, 1), (3600, 2), (14400, 4), (10800, 3)])"
    by simp
  have v: "split_data [(7200, 5), (0, 1), (3600, 2), (14400, 4), (10800, 3)]
       = ([(0, 1), (3600, 2), (7200, 5), (10800, 3)], [(14400, 4)])"
    by (simp add: split_data_eq)
  have a: "last (fst (split_data [(7200, 5), (0, 1), (3600, 2), (14400, 4), (10800, 3)]))
      \<in> set (fst (split_data [(7200, 5), (0, 1), (3600, 2), (14400, 4), (10800, 3)]))"
    unfolding v by simp
  have b: "hd (snd (split_data [(7200, 5), (0, 1), (3600, 2), (14400, 4), (10800, 3)]))
      \<in> set (snd (split_data [(7200, 5), (0, 1), (3600, 2), (14400, 4), (10800, 3)]))"
    unfolding v by simp
  have n: "nat \<lfloor>real (length [(7200 :: int, 5 :: real), (0, 1), (3600, 2), (14400, 4), (10800, 3)])
      * (1 - 0.2)\<rfloor> = 4"
    by (simp add: split_size)
  have len: "length (fst (split_data [(7200, 5), (0, 1), (3600, 2), (14400, 4), (10800, 3)])) = 4"
    using split_data_partition [OF d] n by simp
  have ord: "fst (last (fst (split_data [(7200, 5), (0, 1), (3600, 2), (14400, 4), (10800, 3)])))
       < fst (hd (snd (split_data [(7200, 5), (0, 1), (3600, 2), (14400, 4), (10800, 3)])))"
    using split_data_partition [OF d] a b by blast
  show ?thesis
    using d v len ord by blast
qed

text \<open>
  Claim C4 as stated fails for a ratio other than 0.2: for \<open>r = 0.5\<close> and four rows the
  specification's split point is 2, and the code puts three rows in \<open>train\<close>.
\<close>

theorem split_data_ratio_counterexample:
  "(0::real) < 0.5 \<and> (0.5::real) < 1
   \<and> length (fst (split_data [(0, 1), (3600, 2), (7200, 3), (10800, 4)])) = 3
   \<and> spec_split_point (length [(0::int, 1::real), (3600, 2), (7200, 3), (10800, 4)]) 0.5 = 2"
  by (simp add: split_data_eq spec_split_point_def)

text \<open>
  Claim C5, as the code has it. \<open>split_data\<close> has no size check and raises nothing: for
  every series with fewer than \<open>2 * (m + 1)\<close> rows, \<open>m\<close> any seasonal period, it returns
  the partition of the sorted series at \<open>floor(0.8 * n)\<close>, and one of the two parts has
  fewer than \<open>m + 1\<close> rows.
\<close>

theorem split_data_no_size_check:
  assumes "length series < 2 * (m + 1)"
  shows "\<exists>train test. split_data series = (train, test)
       \<and> train @ test = sort_key fst series
       \<and> length train = 4 * length series div 5
       \<and> (length train < m + 1 \<or> length test < m + 1)"
proof -
  define train where "train = take (4 * length series div 5) (sort_key fst series)"
  define test where "test = drop (4 * length series div 5) (sort_key fst series)"
  have sd: "split_data series = (train, test)"
    unfolding train_def test_def by (rule split_data_eq)
  have app: "train @ test = sort_key fst series"
    by (simp add: train_def test_def)
  have len: "length train = 4 * length series div 5"
    by (simp add: train_def)
  have "length train + length test = length series"
    using arg_cong [OF app, of length] by simp
  then have short: "length train < m + 1 \<or> length test < m + 1"
    using assms by arith
  show ?thesis
    using sd app len short by blast
qed

text \<open>Claim C5 at three hourly rows and the seasonal period 24 of the hourly cadence.\<close>

theorem split_data_no_size_check_witness:
  "length [(0::int, 1::real), (3600, 2), (7200, 3)] < 2 * (sfrequency ''1h'' + 1)
   \<and> (\<exists>train test. split_data [(0, 1), (3600, 2), (7200, 3)] = (train, test)
        \<and> train @ test = sort_key fst [(0, 1), (3600, 2), (7200, 3)]
        \<and> length train = 4 * length [(0::int, 1::real), (3600, 2), (7200, 3)] div 5
        \<and> (length train < sfrequency ''1h'' + 1 \<or> length test < sfrequency ''1h'' + 1))"
proof -
  have h: "length [(0::int, 1::real), (3600, 2), (7200, 3)] < 2 * (sfrequency ''1h'' + 1)"
    by (simp add: sfrequency_def)
  show ?thesis
    using split_data_no_size_check [OF h] h by blast
qed

text \<open>
  Claim C5 as stated fails: three rows are fewer than \<open>2 * (24 + 1)\<close>, and \<open>split_data\<close>
  returns a partition whose two parts are both shorter than 25 rows.
\<close>

theorem split_data_short_series_counterexample:
  "length [(0::int, 1::real), (3600, 2), (7200, 3)] < 2 * (sfrequency ''1h'' + 1)
   \<and> split_data [(0, 1), (3600, 2), (7200, 3)] = ([(0, 1), (3600, 2)], [(7200, 3)])
   \<and> length (fst (split_data [(0, 1), (3600, 2), (7200, 3)])) < sfrequency ''1h'' + 1
   \<and> length (snd (split_data [(0, 1), (3600, 2), (7200, 3)])) < sfrequency ''1h'' + 1"
  by (simp add: split_data_eq sfrequency_def)

section \<open>Properties of the model set-up\<close>

lemma sarima_model_flags:
  assumes "sarima_model train freq = Inr model"
  shows "enforce_stationarity model \<and> \<not> enforce_invertibility model"
  using assms by (auto simp: sarima_model_def SARIMAX_def split: if_splits)

lemma sfrequency_known:
  "sfrequency ''1h'' = 24 \<and> sfrequency ''30Min'' = 48 \<and> sfrequency ''15Min'' = 96 \<and> sfrequency ''1d'' = 1"
  by (simp add: sfrequency_def)

lemma sarima_model_hourly:
  "sarima_model train ''1h'' =
     Inr \<lparr> endog = train, order = (1, 2, 2), seasonal_order = (2, 2, 2, 24),
           enforce_stationarity = True, enforce_invertibility = False \<rparr>"
  by (simp add: sarima_model_def SARIMAX_def sfrequency_def)

text \<open>
  Claim C6, as the code has it. For every cadence string other than \<open>1h\<close>, \<open>30Min\<close>,
  \<open>15Min\<close> and \<open>1d\<close>, \<open>_sarima\<close> has no check of its own: the seasonal period keeps its
  fallback value 0, the constructor is called with the seasonal order \<open>(2, 2, 2, 0)\<close>,
  and the run fails there with the constructor's \<open>ValueError\<close>; no model is built.
\<close>

theorem sarima_unknown_cadence:
  assumes "freq \<notin> {''1h'', ''30Min'', ''15Min'', ''1d''}"
  shows "sfrequency freq = 0
       \<and> sarima_model train freq = SARIMAX train (1, 2, 2) (2, 2, 2, 0) True False
       \<and> sarima_model train freq = Inl ValueError"
  using assms by (simp add: sfrequency_def sarima_model_def SARIMAX_def)

text \<open>Claim C6 at the cadence \<open>5Min\<close>.\<close>

theorem sarima_unknown_cadence_witness:
  "''5Min'' \<notin> {''1h'', ''30Min'', ''15Min'', ''1d''}
   \<and> sfrequency ''5Min'' = 0
   \<and> sarima_model [(0, 1)] ''5Min'' = SARIMAX [(0, 1)] (1, 2, 2) (2, 2, 2, 0) True False
   \<and> sarima_model [(0, 1)] ''5Min'' = Inl ValueError"
proof -
  have h: "''5Min'' \<notin> {''1h'', ''30Min'', ''15Min'', ''1d''}" by simp
  show ?thesis using sarima_unknown_cadence [OF h, of "[(0, 1)]"] h by blast
qed

text \<open>
  Claim C6 as stated fails: \<open>2h\<close> is not one of the four cadences; the fallback period 0
  is selected and handed to the constructor, and the error of the run is the
  constructor's \<open>ValueError\<close>, the same that the known cadence \<open>1d\<close> (period 1) ends
  with, not an error of its own for the unknown cadence.
\<close>

theorem sarima_unknown_cadence_counterexample:
  "''2h'' \<notin> {''1h'', ''30Min'', ''15Min'', ''1d''}
   \<and> sfrequency ''2h'' = 0
   \<and> sarima_model [(0, 1)] ''2h'' = SARIMAX [(0, 1)] (1, 2, 2) (2, 2, 2, 0) True False
   \<and> sarima_model [(0, 1)] ''2h'' = Inl ValueError
   \<and> sarima_model [(0, 1)] ''1d'' = Inl ValueError"
  by (simp add: sfrequency_def sarima_model_def SARIMAX_def)

section \<open>Properties of the evaluation cell\<close>

lemma length_upper_bound: "length (upper_bound f) = length f"
  by (simp add: upper_bound_def)

lemma length_lower_bound: "length (lower_bound f) = length f"
  by (simp add: lower_bound_def)

lemma length_detect: "length (detect rows) = length rows"
  by (induction rows rule: detect.induct) simp_all

lemma detect_nth:
  "i < length rows \<Longrightarrow>
   detect rows ! i =
     (case rows ! i of (y, lower, upper) \<Rightarrow>
        if flt (Some y) upper \<and> fgt (Some y) lower then 0 else 1)"
proof (induction rows arbitrary: i rule: detect.induct)
  case 1
  then show ?case by simp
next
  case (2 y lower upper rest)
  then show ?case by (cases i) simp_all
qed

lemma evaluation_rows:
  assumes "length forecast = length test"
  shows "evaluation forecast test =
     Inr (map (\<lambda>i.
             \<lparr> row_ds = fst (test ! i),
               row_y = snd (test ! i),
               row_predict = forecast ! i,
               LowerBound = lower_bound forecast ! i,
               UpperBound = upper_bound forecast ! i,
               WithinUpperBounds = flt (Some (forecast ! i)) (upper_bound forecast ! i),
               WithinLowerBounds = fgt (Some (forecast ! i)) (lower_bound forecast ! i),
               Anomaly = (if flt (Some (snd (test ! i))) (upper_bound forecast ! i)
                             \<and> fgt (Some (snd (test ! i))) (lower_bound forecast ! i)
                          then 0 else 1) \<rparr>) [0..<length test])"
proof -
  let ?rows = "zip (map snd test) (zip (lower_bound forecast) (upper_bound forecast))"
  have len: "length ?rows = length test"
    using assms by (simp add: length_lower_bound length_upper_bound)
  have "detect ?rows ! i =
      (if flt (Some (snd (test ! i))) (upper_bound forecast ! i)
          \<and> fgt (Some (snd (test ! i))) (lower_bound forecast ! i) then 0 else 1)"
    if "i < length test" for i
    using that assms detect_nth [of i ?rows]
    by (simp add: length_lower_bound length_upper_bound)
  then show ?thesis
    using assms by (simp add: evaluation_def Let_def)
qed

lemma evaluation_row:
  assumes "length forecast = length test"
  obtains rows where "evaluation forecast test = Inr rows"
    and "length rows = length test"
    and "\<And>i. i < length test \<Longrightarrow> rows ! i =
             \<lparr> row_ds = fst (test ! i),
               row_y = snd (test ! i),
               row_predict = forecast ! i,
               LowerBound = lower_bound forecast ! i,
               UpperBound = upper_bound forecast ! i,
               WithinUpperBounds = flt (Some (forecast ! i)) (upper_bound forecast ! i),
               WithinLowerBounds = fgt (Some (forecast ! i)) (lower_bound forecast ! i),
               Anomaly = (if flt (Some (snd (test ! i))) (upper_bound forecast ! i)
                             \<and> fgt (Some (snd (test ! i))) (lower_bound forecast ! i)
                          then 0 else 1) \<rparr>"
  using evaluation_rows [OF assms] by simp

lemma sum_list_map_take:
  fixes g :: "real \<Rightarrow> real"
  assumes "i \<le> length f"
  shows "sum_list (map g (take i f)) = (\<Sum>j<i. g (f ! j))"
proof -
  have "sum_list (map g (take i f)) = (\<Sum>j = 0..<length (map g (take i f)). map g (take i f) ! j)"
    by (rule sum_list_sum_nth)
  also have "\<dots> = (\<Sum>j = 0..<i. g (f ! j))"
    using assms by (intro sum.cong) (simp_all add: min_def)
  finally show ?thesis by (simp add: atLeast0LessThan)
qed

lemma np_std_take:
  assumes "0 < i" and "i \<le> length f"
  shows "np_std (take i f) =
     Some (sqrt ((\<Sum>j<i. (f ! j - (\<Sum>j<i. f ! j) / real i)\<^sup>2) / real i))"
proof -
  have ne: "take i f \<noteq> []" using assms by auto
  have len: "length (take i f) = i" using assms by simp
  have mean: "np_mean (take i f) = (\<Sum>j<i. f ! j) / real i"
    using sum_list_map_take [OF assms(2), of "\<lambda>x. x"] len by (simp add: np_mean_def)
  show ?thesis
    using ne len mean sum_list_map_take [OF assms(2), of "\<lambda>x. (x - (\<Sum>j<i. f ! j) / real i)\<^sup>2"]
    by (simp add: np_std_def)
qed

lemma upper_bound_nth:
  "i < length f \<Longrightarrow> upper_bound f ! i = fadd (Some (f ! i)) (fmul (np_std (take i f)) (Some 2))"
  by (simp add: upper_bound_def)

lemma lower_bound_nth:
  "i < length f \<Longrightarrow> lower_bound f ! i = fsub (Some (f ! i)) (fmul (np_std (take i f)) (Some 2))"
  by (simp add: lower_bound_def)

lemma np_std_Nil: "np_std [] = None"
  by (simp add: np_std_def)

lemma band_contains_prediction_after_first:
  assumes "0 < i" and "i < length forecast"
  shows "fge (upper_bound forecast ! i) (Some (forecast ! i))
       \<and> fge (Some (forecast ! i)) (lower_bound forecast ! i)"
proof -
  define s where "s = sqrt (sum_list (map (\<lambda>x. (x - np_mean (take i forecast))\<^sup>2) (take i forecast))
                        / real (length (take i forecast)))"
  have "take i forecast \<noteq> []" using assms by auto
  then have s: "np_std (take i forecast) = Some s"
    by (simp add: np_std_def s_def)
  have "0 \<le> sum_list (map (\<lambda>x. (x - np_mean (take i forecast))\<^sup>2) (take i forecast))"
    by (rule sum_list_nonneg) auto
  then have "0 \<le> s" by (simp add: s_def)
  then show ?thesis
    using assms s by (simp add: upper_bound_nth lower_bound_nth fadd_def fsub_def fmul_def fge_def)
qed

text \<open>
  Claim C1, as the code has it. For every forecast and every index \<open>i\<close> with
  \<open>1 \<le> i < n\<close>, the bounds are \<open>predict[i]\<close> plus and minus 2 times the population
  standard deviation (divisor \<open>i\<close>, the number of points) of the predicted values
  \<open>predict[0..i-1]\<close>, the points strictly before index \<open>i\<close>; the multiplier is the
  constant 2.
\<close>

theorem bound_estimator_window:
  assumes "0 < i" and "i < length forecast"
  shows "upper_bound forecast ! i =
           Some (forecast ! i
             + 2 * sqrt ((\<Sum>j<i. (forecast ! j - (\<Sum>j<i. forecast ! j) / real i)\<^sup>2) / real i))
       \<and> lower_bound forecast ! i =
           Some (forecast ! i
             - 2 * sqrt ((\<Sum>j<i. (forecast ! j - (\<Sum>j<i. forecast ! j) / real i)\<^sup>2) / real i))"
  using assms np_std_take [of i forecast]
  by (simp add: upper_bound_nth lower_bound_nth fadd_def fsub_def fmul_def)

text \<open>Claim C1 at the forecast \<open>[1, 3, 5]\<close> and index 2: the window is \<open>[1, 3]\<close>, of deviation 1.\<close>

theorem bound_estimator_window_witness:
  "(0::nat) < 2 \<and> 2 < length [1, 3, 5 :: real]
   \<and> upper_bound [1, 3, 5] ! 2 = Some 7 \<and> lower_bound [1, 3, 5] ! 2 = Some 3"
  using bound_estimator_window [of 2 "[1, 3, 5]"]
  by (simp add: lessThan_nat_numeral lessThan_Suc)

text \<open>
  Claim C1 as stated fails at the forecast \<open>[1, 3, 5]\<close> and index 2: the sample standard
  deviation of \<open>[1, 3, 5]\<close> is 2, so the stated bounds are 9 and 1; the code gives 7 and 3.
\<close>

theorem bound_estimator_spec_counterexample:
  "upper_bound [1, 3, 5] ! 2 = Some 7 \<and> spec_upper_bound 2 [1, 3, 5] 2 = 9
   \<and> lower_bound [1, 3, 5] ! 2 = Some 3 \<and> spec_lower_bound 2 [1, 3, 5] 2 = 1
   \<and> upper_bound [1, 3, 5] ! 2 \<noteq> Some (spec_upper_bound 2 [1, 3, 5] 2)
   \<and> lower_bound [1, 3, 5] ! 2 \<noteq> Some (spec_lower_bound 2 [1, 3, 5] 2)"
  by (simp add: upper_bound_def lower_bound_def np_std_def np_mean_def fadd_def fsub_def fmul_def
      spec_upper_bound_def spec_lower_bound_def spec_stddev_def upt_conv_Cons del: upt_Suc)

text \<open>
  Claim C2 at the forecast \<open>[5]\<close>. At index 0 the slice \<open>forecast[:0]\<close> is empty and its
  standard deviation is NaN, so both bounds are NaN and neither equals the prediction,
  where the stated bounds are both 5.
\<close>

theorem bounds_at_index_0_nan:
  "upper_bound [5] ! 0 = None \<and> lower_bound [5] ! 0 = None
   \<and> spec_upper_bound 2 [5] 0 = 5 \<and> spec_lower_bound 2 [5] 0 = 5
   \<and> upper_bound [5] ! 0 \<noteq> Some ([5] ! 0) \<and> lower_bound [5] ! 0 \<noteq> Some ([5] ! 0)"
  by (simp add: upper_bound_def lower_bound_def np_std_def fadd_def fsub_def fmul_def
      spec_upper_bound_def spec_lower_bound_def spec_stddev_def)

text \<open>
  Claim C8 at the forecast \<open>[5]\<close>. At index 0 both bounds are NaN, and neither
  \<open>upperBound[0] >= predict[0]\<close> nor \<open>predict[0] >= lowerBound[0]\<close> holds.
\<close>

theorem band_at_index_0_excludes_prediction:
  "\<not> fge (upper_bound [5] ! 0) (Some ([5] ! 0)) \<and> \<not> fge (Some ([5] ! 0)) (lower_bound [5] ! 0)"
  by (simp add: upper_bound_def lower_bound_def np_std_def fadd_def fsub_def fmul_def fge_def)



text \<open>
  Claim C10. When the forecast has one value per row of \<open>test\<close> and \<open>test\<close> is not empty,
  the first row of the result has NaN as its lower and as its upper bound (the standard
  deviation of the empty slice \<open>forecast[:0]\<close>) and \<open>Anomaly = 1\<close>, whatever the actual
  value is.
\<close>

theorem first_row_always_anomalous:
  assumes "length forecast = length test" and "test \<noteq> []"
  shows "\<exists>rows. evaluation forecast test = Inr rows \<and> rows \<noteq> []
       \<and> LowerBound (rows ! 0) = None \<and> UpperBound (rows ! 0) = None
       \<and> Anomaly (rows ! 0) = 1"
proof -
  have pos: "0 < length test" "0 < length forecast" using assms by auto
  have nan: "upper_bound forecast ! 0 = None" "lower_bound forecast ! 0 = None"
    using pos by (simp_all add: upper_bound_nth lower_bound_nth np_std_Nil fadd_def fsub_def fmul_def)
  obtain rows where ev: "evaluation forecast test = Inr rows"
    and len: "length rows = length test"
    and row: "\<And>i. i < length test \<Longrightarrow> rows ! i =
             \<lparr> row_ds = fst (test ! i),
               row_y = snd (test ! i),
               row_predict = forecast ! i,
               LowerBound = lower_bound forecast ! i,
               UpperBound = upper_bound forecast ! i,
               WithinUpperBounds = flt (Some (forecast ! i)) (upper_bound forecast ! i),
               WithinLowerBounds = fgt (Some (forecast ! i)) (lower_bound forecast ! i),
               Anomaly = (if flt (Some (snd (test ! i))) (upper_bound forecast ! i)
                             \<and> fgt (Some (snd (test ! i))) (lower_bound forecast ! i)
                          then 0 else 1) \<rparr>"
    using evaluation_row [OF assms(1)] by blast
  have "rows \<noteq> []" using len pos by auto
  moreover have "LowerBound (rows ! 0) = None" "UpperBound (rows ! 0) = None" "Anomaly (rows ! 0) = 1"
    using row [OF pos(1)] nan by (simp_all add: flt_def)
  ultimately show ?thesis using ev by simp
qed

text \<open>Claim C10 at one row whose actual value equals its prediction.\<close>

theorem first_row_always_anomalous_witness:
  "length [5 :: real] = length [(0 :: int, 5 :: real)] \<and> [(0 :: int, 5 :: real)] \<noteq> []
   \<and> (\<exists>rows. evaluation [5] [(0, 5)] = Inr rows \<and> rows \<noteq> []
        \<and> LowerBound (rows ! 0) = None \<and> UpperBound (rows ! 0) = None
        \<and> Anomaly (rows ! 0) = 1)"
proof -
  have h1: "length [5 :: real] = length [(0 :: int, 5 :: real)]" by simp
  have h2: "[(0 :: int, 5 :: real)] \<noteq> []" by simp
  show ?thesis
    using first_row_always_anomalous [OF h1 h2] h1 h2 by blast
qed

end
